theory Spec2Isabelle
  imports Main
begin

section \<open>C integer arithmetic\<close>

text \<open>
  The program computes on C \<open>int\<close>. Hours, minutes and UTC offsets are small, so the
  values are modelled as mathematical integers. C's \<open>/\<close> truncates towards zero and
  \<open>%\<close> takes the sign of the dividend, unlike \<open>div\<close> and \<open>mod\<close> of HOL, so both are
  written out.
\<close>

definition c_div :: "int \<Rightarrow> int \<Rightarrow> int" where
  "c_div a b = sgn a * sgn b * (\<bar>a\<bar> div \<bar>b\<bar>)"

definition c_mod :: "int \<Rightarrow> int \<Rightarrow> int" where
  "c_mod a b = sgn a * (\<bar>a\<bar> mod \<bar>b\<bar>)"

section \<open>Data of \<open>main.c\<close>\<close>

text \<open>
  \<open>PblTm\<close> is the broken-down time of the watch's SDK header (the fields of C's
  \<open>struct tm\<close>). The callback reads and writes \<open>tm_hour\<close> and \<open>tm_min\<close> only.
\<close>

record PblTm =
  tm_sec :: int
  tm_min :: int
  tm_hour :: int
  tm_mday :: int
  tm_mon :: int
  tm_year :: int
  tm_wday :: int
  tm_yday :: int
  tm_isdst :: int

record GRect =
  origin_x :: int
  origin_y :: int
  size_w :: int
  size_h :: int

text \<open>Of a \<open>Layer\<close> the program reads \<open>bounds\<close> only.\<close>

record Layer =
  bounds :: GRect

record timezone_t =
  name :: string
  offset :: int
  layer :: Layer

text \<open>Line 40: the local timezone's GMT offset, in minutes.\<close>

definition gmt_offset :: int where
  "gmt_offset = 8 * 60"

definition NUM_TIMEZONES :: nat where
  "NUM_TIMEZONES = 3"

text \<open>
  Lines 45 to 50: the static table. The initialiser names \<open>name\<close> and \<open>offset\<close>; C
  zero-initialises the \<open>layer\<close> member, which \<open>handle_init\<close> sets up later.
\<close>

definition zero_layer :: Layer where
  "zero_layer = \<lparr>bounds = \<lparr>origin_x = 0, origin_y = 0, size_w = 0, size_h = 0\<rparr>\<rparr>"

definition timezones :: "timezone_t list" where
  "timezones =
     [\<lparr>name = ''US Central'', offset = - 6 * 60, layer = zero_layer\<rparr>,
      \<lparr>name = ''US Eastern'', offset = - 5 * 60, layer = zero_layer\<rparr>,
      \<lparr>name = ''India'', offset = 5 * 60 + 30, layer = zero_layer\<rparr>]"

section \<open>The zone-time computation of \<open>timezone_layer_update\<close>\<close>

text \<open>
  Lines 65 to 80 update \<open>now\<close> in place, statement by statement. Each statement is one
  function on the time value; \<open>d\<close> is \<open>tz->offset - gmt_offset\<close>.
\<close>

text \<open>Line 65: \<open>now.tm_min += (tz->offset - gmt_offset) % 60\<close>.\<close>

definition add_delta_min :: "int \<Rightarrow> PblTm \<Rightarrow> PblTm" where
  "add_delta_min d t = t\<lparr>tm_min := tm_min t + c_mod d 60\<rparr>"

text \<open>Lines 67 to 76: the carry into, or the borrow from, the hour.\<close>

definition carry_min :: "PblTm \<Rightarrow> PblTm" where
  "carry_min t =
     (if tm_min t > 60 then t\<lparr>tm_hour := tm_hour t + 1, tm_min := tm_min t - 60\<rparr>
      else if tm_min t < 0 then t\<lparr>tm_hour := tm_hour t - 1, tm_min := tm_min t + 60\<rparr>
      else t)"

text \<open>Line 78: \<open>now.tm_hour += (tz->offset - gmt_offset) / 60\<close>.\<close>

definition add_delta_hour :: "int \<Rightarrow> PblTm \<Rightarrow> PblTm" where
  "add_delta_hour d t = t\<lparr>tm_hour := tm_hour t + c_div d 60\<rparr>"

text \<open>Lines 79 and 80: two \<open>if\<close> statements in sequence, each correcting by one day.\<close>

definition wrap_hour :: "PblTm \<Rightarrow> PblTm" where
  "wrap_hour t =
     (let t1 = (if tm_hour t > 24 then t\<lparr>tm_hour := tm_hour t - 24\<rparr> else t)
      in if tm_hour t1 < 0 then t1\<lparr>tm_hour := tm_hour t1 + 24\<rparr> else t1)"

text \<open>Lines 65 to 80 as a whole: the value of \<open>now\<close> that is formatted and tested.\<close>

definition zone_time :: "int \<Rightarrow> PblTm \<Rightarrow> PblTm" where
  "zone_time d t = wrap_hour (add_delta_hour d (carry_min (add_delta_min d t)))"

text \<open>Line 92: \<open>is_pm = (now.tm_hour > 12)\<close>, on the zone time.\<close>

definition is_pm :: "PblTm \<Rightarrow> bool" where
  "is_pm t = (tm_hour t > 12)"

section \<open>The host's interface\<close>

text \<open>
  The graphics primitives, the fonts, the 12h/24h query and \<open>string_format_time\<close> belong
  to the watch's runtime. A font is an opaque handle. A graphics context is written to
  and never read by the program, so it is the sequence of the calls made on it. The two
  runtime queries are parameters of the callback.
\<close>

type_synonym GFont = nat

datatype GColor = GColorBlack | GColorWhite

datatype GTextOverflowMode =
  GTextOverflowModeWordWrap | GTextOverflowModeTrailingEllipsis

datatype GTextAlignment =
  GTextAlignmentLeft | GTextAlignmentCenter | GTextAlignmentRight

datatype gfx_call =
  graphics_context_set_fill_color GColor
| graphics_context_set_text_color GColor
| graphics_fill_rect GRect int int
| graphics_text_draw string GFont GRect GTextOverflowMode GTextAlignment

type_synonym GContext = "gfx_call list"

record host =
  clock_is_24h_style :: bool
  string_format_time :: "nat \<Rightarrow> string \<Rightarrow> PblTm \<Rightarrow> string"

text \<open>The macro \<open>GRect(x, y, w, h)\<close>.\<close>

definition mk_GRect :: "int \<Rightarrow> int \<Rightarrow> int \<Rightarrow> int \<Rightarrow> GRect" where
  "mk_GRect x y w h = \<lparr>origin_x = x, origin_y = y, size_w = w, size_h = h\<rparr>"

section \<open>The panel render callback\<close>

text \<open>Lines 54 to 56: the globals the callback uses.\<close>

record app_state =
  now :: PblTm
  font_thin :: GFont
  font_thick :: GFont

text \<open>
  Lines 58 to 106. \<open>container_of\<close> finds the table entry that holds the layer, so the
  callback is given the entry. The global \<open>now\<close> is overwritten with the zone time
  (\<open>s1\<close>), formatted and tested there, and then its two fields are assigned back from
  the saved copies (\<open>s2\<close>, \<open>s3\<close>). \<open>buf\<close> has 32 bytes.
\<close>

definition timezone_layer_update ::
  "host \<Rightarrow> timezone_t \<Rightarrow> app_state \<times> GContext \<Rightarrow> app_state \<times> GContext" where
  "timezone_layer_update hst tz sc =
     (let s = fst sc; ctx = snd sc;
          orig_hour = tm_hour (now s);
          orig_min = tm_min (now s);
          s1 = s\<lparr>now := zone_time (offset tz - gmt_offset) (now s)\<rparr>;
          buf = (if clock_is_24h_style hst
                 then string_format_time hst 32 ''%H:%M'' (now s1)
                 else string_format_time hst 32 ''%I:%M'' (now s1));
          pm = is_pm (now s1);
          s2 = s1\<lparr>now := (now s1)\<lparr>tm_hour := orig_hour\<rparr>\<rparr>;
          s3 = s2\<lparr>now := (now s2)\<lparr>tm_min := orig_min\<rparr>\<rparr>;
          w = size_w (bounds (layer tz));
          h = size_h (bounds (layer tz));
          ctx1 = ctx @ [graphics_context_set_fill_color
                          (if pm then GColorBlack else GColorWhite)];
          ctx2 = ctx1 @ [graphics_context_set_text_color
                           (if pm then GColorWhite else GColorBlack)];
          ctx3 = ctx2 @ [graphics_fill_rect (mk_GRect 0 0 w h) 0 0];
          ctx4 = ctx3 @ [graphics_text_draw (name tz) (font_thin s3)
                           (mk_GRect 0 0 w (c_div h 3))
                           GTextOverflowModeTrailingEllipsis GTextAlignmentCenter];
          ctx5 = ctx4 @ [graphics_text_draw buf (font_thick s3)
                           (mk_GRect 0 (c_div h 3) w (c_div (2 * h) 3))
                           GTextOverflowModeTrailingEllipsis GTextAlignmentCenter]
      in (s3, ctx5))"

text \<open>The calls one invocation makes on a context that held \<open>ctx\<close> before.\<close>

definition issued :: "GContext \<Rightarrow> GContext \<Rightarrow> gfx_call list" where
  "issued ctx ctx' = drop (length ctx) ctx'"

section \<open>What the issued calls paint\<close>






text \<open>A wall-clock time with all other fields zero, for concrete inputs.\<close>

definition clock :: "int \<Rightarrow> int \<Rightarrow> PblTm" where
  "clock h m = \<lparr>tm_sec = 0, tm_min = m, tm_hour = h, tm_mday = 0, tm_mon = 0,
     tm_year = 0, tm_wday = 0, tm_yday = 0, tm_isdst = 0\<rparr>"

section \<open>Evaluation lemmas\<close>

lemma c_div_60_numeral [simp]:
  "c_div (numeral n) 60 = numeral n div 60"
  "c_div (- numeral n) 60 = - (numeral n div 60)"
  "c_div 0 60 = 0"
  by (simp_all add: c_div_def)

lemma c_mod_60_numeral [simp]:
  "c_mod (numeral n) 60 = numeral n mod 60"
  "c_mod (- numeral n) 60 = - (numeral n mod 60)"
  "c_mod 0 60 = 0"
  by (simp_all add: c_mod_def)

lemmas zone_time_defs =
  zone_time_def wrap_hour_def add_delta_hour_def carry_min_def add_delta_min_def

section \<open>Facts about the C arithmetic\<close>

lemma c_mod_60_bounds: "- 59 \<le> c_mod d 60 \<and> c_mod d 60 \<le> 59"
  unfolding c_mod_def by (cases "0 \<le> d") (simp_all add: sgn_if, presburger+)

lemma c_div_mod_60: "60 * c_div d 60 + c_mod d 60 = d"
  unfolding c_mod_def c_div_def by (simp add: sgn_if) presburger

lemma c_mod_60_sign:
  "(0 \<le> d \<longrightarrow> 0 \<le> c_mod d 60) \<and> (d \<le> 0 \<longrightarrow> c_mod d 60 \<le> 0)"
  unfolding c_mod_def by (simp add: sgn_if)

section \<open>Facts about the zone-time computation\<close>

lemma tm_min_zone_time:
  "tm_min (zone_time d t) = tm_min (carry_min (add_delta_min d t))"
  by (simp add: zone_time_def wrap_hour_def add_delta_hour_def Let_def)

lemma tm_hour_carry_min:
  "tm_hour (carry_min (add_delta_min d t)) =
     (if tm_min t + c_mod d 60 > 60 then tm_hour t + 1
      else if tm_min t + c_mod d 60 < 0 then tm_hour t - 1 else tm_hour t)"
  by (simp add: carry_min_def add_delta_min_def)

lemma tm_hour_wrap_hour:
  "tm_hour (wrap_hour t) =
     (if tm_hour t > 24 then tm_hour t - 24
      else if tm_hour t < 0 then tm_hour t + 24 else tm_hour t)"
  by (simp add: wrap_hour_def Let_def)

text \<open>Unless the minute sum is exactly 60, the minute ends in range, for any delta.\<close>

lemma minute_range:
  assumes "0 \<le> tm_min t" "tm_min t \<le> 59" "tm_min (add_delta_min d t) \<noteq> 60"
  shows "0 \<le> tm_min (zone_time d t) \<and> tm_min (zone_time d t) \<le> 59"
  using assms c_mod_60_bounds [of d]
  by (simp add: tm_min_zone_time carry_min_def add_delta_min_def)

text \<open>
  With a delta of at most one day either way, the hour before the two corrections of
  lines 79 and 80 is at most one day out of range.
\<close>

lemma hour_sum_range:
  assumes "0 \<le> tm_hour t" "tm_hour t \<le> 23" "0 \<le> tm_min t" "tm_min t \<le> 59"
    and "\<bar>d\<bar> \<le> 1440"
  shows "- 24 \<le> tm_hour (add_delta_hour d (carry_min (add_delta_min d t))) \<and>
         tm_hour (add_delta_hour d (carry_min (add_delta_min d t))) \<le> 47"
  using assms c_mod_60_bounds [of d] c_div_mod_60 [of d] c_mod_60_sign [of d]
  by (simp add: add_delta_hour_def tm_hour_carry_min) linarith

lemma hour_range:
  assumes "0 \<le> tm_hour t" "tm_hour t \<le> 23" "0 \<le> tm_min t" "tm_min t \<le> 59"
    and "\<bar>d\<bar> \<le> 1440"
    and "tm_hour (add_delta_hour d (carry_min (add_delta_min d t))) \<noteq> 24"
  shows "0 \<le> tm_hour (zone_time d t) \<and> tm_hour (zone_time d t) \<le> 23"
  using hour_sum_range [OF assms(1-5)] assms(6)
  by (simp add: zone_time_def tm_hour_wrap_hour)

text \<open>The computation writes \<open>tm_hour\<close> and \<open>tm_min\<close> and no other field.\<close>

lemma zone_time_frame:
  "(zone_time d t)\<lparr>tm_hour := tm_hour t, tm_min := tm_min t\<rparr> = t"
  by (simp add: zone_time_defs Let_def)

section \<open>Facts about the callback\<close>


lemma timezone_layer_update_issued:
  "issued ctx (snd (timezone_layer_update hst tz (s, ctx))) =
     [graphics_context_set_fill_color
        (if is_pm (zone_time (offset tz - gmt_offset) (now s))
         then GColorBlack else GColorWhite),
      graphics_context_set_text_color
        (if is_pm (zone_time (offset tz - gmt_offset) (now s))
         then GColorWhite else GColorBlack),
      graphics_fill_rect
        (mk_GRect 0 0 (size_w (bounds (layer tz))) (size_h (bounds (layer tz)))) 0 0,
      graphics_text_draw (name tz) (font_thin s)
        (mk_GRect 0 0 (size_w (bounds (layer tz))) (c_div (size_h (bounds (layer tz))) 3))
        GTextOverflowModeTrailingEllipsis GTextAlignmentCenter,
      graphics_text_draw
        (string_format_time hst 32
           (if clock_is_24h_style hst then ''%H:%M'' else ''%I:%M'')
           (zone_time (offset tz - gmt_offset) (now s)))
        (font_thick s)
        (mk_GRect 0 (c_div (size_h (bounds (layer tz))) 3) (size_w (bounds (layer tz)))
           (c_div (2 * size_h (bounds (layer tz))) 3))
        GTextOverflowModeTrailingEllipsis GTextAlignmentCenter]"
  by (simp add: timezone_layer_update_def Let_def issued_def)




section \<open>Claims\<close>

text \<open>
  C1, as amended. For every local time with hour in [0,23] and minute in [0,59], and every
  zone offset and local offset that differ by at most 1440 minutes, the zone-time
  computation returns a minute in [0,59] unless the minute sum of line 65 is exactly 60,
  and an hour in [0,23] unless the hour sum of line 78 is exactly 24.
\<close>

theorem zone_time_range_within_one_day:
  assumes "0 \<le> tm_hour t" "tm_hour t \<le> 23" "0 \<le> tm_min t" "tm_min t \<le> 59"
    and "\<bar>zone_offset - local_offset\<bar> \<le> 1440"
  shows "(tm_min (add_delta_min (zone_offset - local_offset) t) \<noteq> 60 \<longrightarrow>
            0 \<le> tm_min (zone_time (zone_offset - local_offset) t) \<and>
            tm_min (zone_time (zone_offset - local_offset) t) \<le> 59) \<and>
         (tm_hour (add_delta_hour (zone_offset - local_offset)
             (carry_min (add_delta_min (zone_offset - local_offset) t))) \<noteq> 24 \<longrightarrow>
            0 \<le> tm_hour (zone_time (zone_offset - local_offset) t) \<and>
            tm_hour (zone_time (zone_offset - local_offset) t) \<le> 23)"
proof (intro conjI impI)
  assume m: "tm_min (add_delta_min (zone_offset - local_offset) t) \<noteq> 60"
  from minute_range [OF assms(3,4) m]
  show "0 \<le> tm_min (zone_time (zone_offset - local_offset) t)"
    and "tm_min (zone_time (zone_offset - local_offset) t) \<le> 59"
    by simp_all
next
  assume h: "tm_hour (add_delta_hour (zone_offset - local_offset)
    (carry_min (add_delta_min (zone_offset - local_offset) t))) \<noteq> 24"
  from hour_range [OF assms h]
  show "0 \<le> tm_hour (zone_time (zone_offset - local_offset) t)"
    and "tm_hour (zone_time (zone_offset - local_offset) t) \<le> 23"
    by simp_all
qed

theorem zone_time_range_within_one_day_witness:
  "0 \<le> tm_hour (clock 14 5) \<and> tm_hour (clock 14 5) \<le> 23 \<and>
   0 \<le> tm_min (clock 14 5) \<and> tm_min (clock 14 5) \<le> 59 \<and>
   \<bar>330 - 480 :: int\<bar> \<le> 1440 \<and>
   tm_min (add_delta_min (330 - 480) (clock 14 5)) \<noteq> 60 \<and>
   tm_hour (add_delta_hour (330 - 480) (carry_min (add_delta_min (330 - 480) (clock 14 5))))
     \<noteq> 24 \<and>
   0 \<le> tm_min (zone_time (330 - 480) (clock 14 5)) \<and>
   tm_min (zone_time (330 - 480) (clock 14 5)) \<le> 59 \<and>
   0 \<le> tm_hour (zone_time (330 - 480) (clock 14 5)) \<and>
   tm_hour (zone_time (330 - 480) (clock 14 5)) \<le> 23"
  using zone_time_range_within_one_day [of "clock 14 5" 330 480]
  by (simp add: clock_def zone_time_defs)

text \<open>
  C1, as stated, fails. At 23:00 with the local offset -720 and the zone offset +840 (a
  delta of 26 hours) the hour is 25; at 09:45 with a delta of +15 minutes the minute is
  60; at 23:00 with a delta of +60 minutes the hour is 24.
\<close>

theorem zone_time_range_counterexample:
  "tm_hour (zone_time (840 - (- 720)) (clock 23 0)) = 25 \<and>
   tm_min (zone_time (495 - 480) (clock 9 45)) = 60 \<and>
   tm_hour (zone_time (540 - 480) (clock 23 0)) = 24"
  by (simp add: clock_def zone_time_defs)

text \<open>
  C2. The code at the local time 10:30 for a zone at +510 minutes (delta +30): the minute
  sum is exactly 60, the test of line 67 is \<open>> 60\<close>, no hour is carried and the
  minute stays 60.
\<close>

theorem minute_sixty_not_carried:
  "tm_min (add_delta_min (510 - gmt_offset) (clock 10 30)) = 60 \<and>
   carry_min (add_delta_min (510 - gmt_offset) (clock 10 30)) =
     add_delta_min (510 - gmt_offset) (clock 10 30) \<and>
   tm_hour (zone_time (510 - gmt_offset) (clock 10 30)) = 10 \<and>
   tm_min (zone_time (510 - gmt_offset) (clock 10 30)) = 60"
  by (simp add: gmt_offset_def clock_def zone_time_defs)

text \<open>
  C3. The code at the day boundaries: 23:30 with a delta of +60 minutes gives hour 24,
  minute 30 (the test of line 79 is \<open>> 24\<close>); 00:10 with a delta of -60 minutes
  gives hour 23, minute 10.
\<close>

theorem hour_wrap_day_boundaries:
  "tm_hour (zone_time 60 (clock 23 30)) = 24 \<and>
   tm_min (zone_time 60 (clock 23 30)) = 30 \<and>
   tm_hour (zone_time (- 60) (clock 0 10)) = 23 \<and>
   tm_min (zone_time (- 60) (clock 0 10)) = 10"
  by (simp add: clock_def zone_time_defs)

text \<open>
  C4. The AM/PM flag is (normalized hour > 12). For the table's entry "India": the local
  time 14:30 gives hour 12 and the flag false, 15:30 gives hour 13 and the flag true,
  02:30 gives hour 0 and the flag false.
\<close>

theorem is_pm_after_twelve:
  "is_pm (zone_time d t) = (tm_hour (zone_time d t) > 12) \<and>
   tm_hour (zone_time (offset (timezones ! 2) - gmt_offset) (clock 14 30)) = 12 \<and>
   is_pm (zone_time (offset (timezones ! 2) - gmt_offset) (clock 14 30)) = False \<and>
   tm_hour (zone_time (offset (timezones ! 2) - gmt_offset) (clock 15 30)) = 13 \<and>
   is_pm (zone_time (offset (timezones ! 2) - gmt_offset) (clock 15 30)) = True \<and>
   tm_hour (zone_time (offset (timezones ! 2) - gmt_offset) (clock 2 30)) = 0 \<and>
   is_pm (zone_time (offset (timezones ! 2) - gmt_offset) (clock 2 30)) = False"
  by (simp add: is_pm_def gmt_offset_def timezones_def clock_def zone_time_defs)

text \<open>
  C5. After every invocation of the callback the shared current time, and with it the
  whole program state, equals its value on entry.
\<close>

theorem timezone_layer_update_restores_now:
  "now (fst (timezone_layer_update hst tz (s, ctx))) = now s \<and>
   fst (timezone_layer_update hst tz (s, ctx)) = s"
proof -
  have "(zone_time (offset tz - gmt_offset) (now s))
          \<lparr>tm_hour := tm_hour (now s), tm_min := tm_min (now s)\<rparr> = now s"
    by (rule zone_time_frame)
  then show ?thesis
    by (simp add: timezone_layer_update_def Let_def)
qed

text \<open>
  C6. With the local time 14:05 and the compiled local offset of +480 minutes, the table's
  entry "India" (offset +330, delta -150) gives the zone time 11:35 with \<open>is_pm\<close> false,
  and the entry "US Eastern" (offset -300, delta -780) gives 01:05 with \<open>is_pm\<close> false.
\<close>

theorem end_to_end_india_us_eastern:
  "gmt_offset = 480 \<and>
   name (timezones ! 2) = ''India'' \<and> offset (timezones ! 2) = 330 \<and>
   offset (timezones ! 2) - gmt_offset = - 150 \<and>
   tm_hour (zone_time (offset (timezones ! 2) - gmt_offset) (clock 14 5)) = 11 \<and>
   tm_min (zone_time (offset (timezones ! 2) - gmt_offset) (clock 14 5)) = 35 \<and>
   \<not> is_pm (zone_time (offset (timezones ! 2) - gmt_offset) (clock 14 5)) \<and>
   name (timezones ! 1) = ''US Eastern'' \<and> offset (timezones ! 1) = - 300 \<and>
   offset (timezones ! 1) - gmt_offset = - 780 \<and>
   tm_hour (zone_time (offset (timezones ! 1) - gmt_offset) (clock 14 5)) = 1 \<and>
   tm_min (zone_time (offset (timezones ! 1) - gmt_offset) (clock 14 5)) = 5 \<and>
   \<not> is_pm (zone_time (offset (timezones ! 1) - gmt_offset) (clock 14 5))"
  by (simp add: gmt_offset_def timezones_def zone_time_defs is_pm_def clock_def)

text \<open>
  C7. For every current time with hour in [0,23] and minute in [0,59], a zone whose
  offset equals the local offset gives that time back unchanged.
\<close>

theorem zone_time_same_offset_identity:
  assumes "0 \<le> tm_hour t" "tm_hour t \<le> 23" "0 \<le> tm_min t" "tm_min t \<le> 59"
    and "zone_offset = local_offset"
  shows "tm_hour (zone_time (zone_offset - local_offset) t) = tm_hour t \<and>
         tm_min (zone_time (zone_offset - local_offset) t) = tm_min t \<and>
         zone_time (zone_offset - local_offset) t = t"
  using assms by (simp add: zone_time_defs)

theorem zone_time_same_offset_identity_witness:
  "0 \<le> tm_hour (clock 14 5) \<and> tm_hour (clock 14 5) \<le> 23 \<and>
   0 \<le> tm_min (clock 14 5) \<and> tm_min (clock 14 5) \<le> 59 \<and>
   gmt_offset = gmt_offset \<and>
   tm_hour (zone_time (gmt_offset - gmt_offset) (clock 14 5)) = 14 \<and>
   tm_min (zone_time (gmt_offset - gmt_offset) (clock 14 5)) = 5 \<and>
   zone_time (gmt_offset - gmt_offset) (clock 14 5) = clock 14 5"
  using zone_time_same_offset_identity [of "clock 14 5" gmt_offset gmt_offset]
  by (simp add: clock_def)

text \<open>
  C8. For the three entries of the table, with the compiled local offset, and every
  time with hour in [0,23] and minute in [0,59]: the test \<open>tm_min > 60\<close> of line 67
  and the test \<open>tm_hour > 24\<close> of line 79 are both false, and the computed hour is in
  [0,23] and the minute in [0,59].
\<close>

theorem configured_zones_avoid_boundaries:
  assumes "tz \<in> set timezones"
    and "0 \<le> tm_hour t" "tm_hour t \<le> 23" "0 \<le> tm_min t" "tm_min t \<le> 59"
  shows "\<not> tm_min (add_delta_min (offset tz - gmt_offset) t) > 60 \<and>
         \<not> tm_hour (add_delta_hour (offset tz - gmt_offset)
               (carry_min (add_delta_min (offset tz - gmt_offset) t))) > 24 \<and>
         0 \<le> tm_hour (zone_time (offset tz - gmt_offset) t) \<and>
         tm_hour (zone_time (offset tz - gmt_offset) t) \<le> 23 \<and>
         0 \<le> tm_min (zone_time (offset tz - gmt_offset) t) \<and>
         tm_min (zone_time (offset tz - gmt_offset) t) \<le> 59"
proof -
  from assms(1) have "offset tz - gmt_offset = - 840 \<or> offset tz - gmt_offset = - 780
      \<or> offset tz - gmt_offset = - 150"
    by (auto simp: timezones_def gmt_offset_def)
  then show ?thesis
  proof (elim disjE)
    assume "offset tz - gmt_offset = - 840"
    with assms(2-5) show ?thesis by (simp add: zone_time_defs Let_def)
  next
    assume "offset tz - gmt_offset = - 780"
    with assms(2-5) show ?thesis by (simp add: zone_time_defs Let_def)
  next
    assume "offset tz - gmt_offset = - 150"
    with assms(2-5) show ?thesis by (simp add: zone_time_defs Let_def)
  qed
qed

theorem configured_zones_avoid_boundaries_witness:
  "timezones ! 2 \<in> set timezones \<and>
   0 \<le> tm_hour (clock 0 10) \<and> tm_hour (clock 0 10) \<le> 23 \<and>
   0 \<le> tm_min (clock 0 10) \<and> tm_min (clock 0 10) \<le> 59 \<and>
   \<not> tm_min (add_delta_min (offset (timezones ! 2) - gmt_offset) (clock 0 10)) > 60 \<and>
   \<not> tm_hour (add_delta_hour (offset (timezones ! 2) - gmt_offset)
         (carry_min (add_delta_min (offset (timezones ! 2) - gmt_offset) (clock 0 10))))
       > 24 \<and>
   tm_hour (zone_time (offset (timezones ! 2) - gmt_offset) (clock 0 10)) = 21 \<and>
   tm_min (zone_time (offset (timezones ! 2) - gmt_offset) (clock 0 10)) = 40"
  using configured_zones_avoid_boundaries [of "timezones ! 2" "clock 0 10"]
  by (simp add: timezones_def gmt_offset_def clock_def zone_time_defs)

text \<open>
  C9. A render issues five calls: it sets the fill colour and the text colour, fills the
  whole panel, and draws the zone name and the time. The colours are white fill with
  black text when \<open>is_pm\<close> is false and black fill with white text when it is true,
  and no call changes a colour between the two settings and the drawing of the texts.
\<close>

theorem panel_colors_paired:
  "issued ctx (snd (timezone_layer_update hst tz (s, ctx))) =
     (if is_pm (zone_time (offset tz - gmt_offset) (now s))
      then [graphics_context_set_fill_color GColorBlack,
            graphics_context_set_text_color GColorWhite]
      else [graphics_context_set_fill_color GColorWhite,
            graphics_context_set_text_color GColorBlack]) @
     [graphics_fill_rect
        (mk_GRect 0 0 (size_w (bounds (layer tz))) (size_h (bounds (layer tz)))) 0 0,
      graphics_text_draw (name tz) (font_thin s)
        (mk_GRect 0 0 (size_w (bounds (layer tz))) (c_div (size_h (bounds (layer tz))) 3))
        GTextOverflowModeTrailingEllipsis GTextAlignmentCenter,
      graphics_text_draw
        (string_format_time hst 32
           (if clock_is_24h_style hst then ''%H:%M'' else ''%I:%M'')
           (zone_time (offset tz - gmt_offset) (now s)))
        (font_thick s)
        (mk_GRect 0 (c_div (size_h (bounds (layer tz))) 3) (size_w (bounds (layer tz)))
           (c_div (2 * size_h (bounds (layer tz))) 3))
        GTextOverflowModeTrailingEllipsis GTextAlignmentCenter]"
  by (simp add: timezone_layer_update_issued)


end
